theory Spec2Isabelle
  imports Complex_Main
begin

section \<open>Shape classification and selection of \<^verbatim>\<open>resize.py\<close>\<close>

text \<open>
  The development embeds the functions of \<^verbatim>\<open>src/resize.py\<close> that decide what happens to
  an image: \<^verbatim>\<open>is_good_ratio\<close>, \<^verbatim>\<open>is_resizable\<close>, \<^verbatim>\<open>get_closest_shape\<close>,
  \<^verbatim>\<open>compute_all_valid_shapes\<close>, \<^verbatim>\<open>get_biggest_shape_contained_in_image\<close>, \<^verbatim>\<open>crop_image\<close>,
  \<^verbatim>\<open>resize_image\<close> and \<^verbatim>\<open>main\<close>.

  Conventions of the model.
  \<^item> A shape is the pair \<open>(height, width)\<close>, as \<^verbatim>\<open>image.shape[:2]\<close> gives it; a ratio is the
    pair \<open>(rw, rh)\<close>, as the command line gives it. The two orders differ, as in the source.
  \<^item> An image is represented by its shape: pixel data plays no part in any function below.
    Decoding, \<^verbatim>\<open>cv2.resize\<close> and \<^verbatim>\<open>cv2.imwrite\<close> are external; a write is recorded as the
    pair of the file name and the shape of the array handed to \<^verbatim>\<open>cv2.imwrite\<close>.
  \<^item> Python's \<^verbatim>\<open>a / b\<close> on integers and numpy's \<^verbatim>\<open>/\<close> produce binary64 values. The model
    takes the exact quotient in \<^typ>\<open>rat\<close>. For \<^verbatim>\<open>int(a / b)\<close> the two agree whenever
    \<open>\<bar>a\<bar> < 2 ^ 53\<close>, which covers every product of an image dimension and a ratio component
    of realistic size; the margin test of \<^verbatim>\<open>is_resizable\<close> is idealised in the same way.
  \<^item> numpy integer arrays have a platform integer type (64 bits on Linux). The model uses
    unbounded integers; it agrees with the code as long as no intermediate value leaves that
    range, in particular for all shapes whose components are below \<open>2 ^ 31\<close>.
  \<^item> Every exception the code can raise is a value of \<open>error\<close>; a function that can raise
    returns \<open>error + 'a\<close>.
\<close>

subsection \<open>Data\<close>

type_synonym shape = "int \<times> int"  \<comment> \<open>\<open>(height, width)\<close>\<close>

type_synonym ratio = "int \<times> int"  \<comment> \<open>\<open>(rw, rh)\<close>\<close>

datatype error = ZeroDivisionError | ValueError | UnboundLocalError | IndexError | InvalidCast

datatype outcome = Conforming | Resizable | CropRequired

type_synonym file_write = "string \<times> shape"  \<comment> \<open>file name and shape of the array written\<close>

subsection \<open>Python and numpy primitives\<close>

text \<open>\<^verbatim>\<open>int(x)\<close> and \<^verbatim>\<open>.astype(int)\<close> on a float: truncation towards zero.\<close>

definition py_int :: "rat \<Rightarrow> int" where
  "py_int q = (if 0 \<le> q then \<lfloor>q\<rfloor> else \<lceil>q\<rceil>)"

text \<open>\<^verbatim>\<open>a / b\<close> on Python integers.\<close>

definition true_div :: "int \<Rightarrow> int \<Rightarrow> error + rat" where
  "true_div a b = (if b = 0 then Inl ZeroDivisionError else Inr (of_int a / of_int b))"

text \<open>\<^verbatim>\<open>xs[j]\<close>: a negative index counts from the end.\<close>

definition py_index :: "'a list \<Rightarrow> int \<Rightarrow> error + 'a" where
  "py_index xs j =
     (let n = int (length xs); k = (if j < 0 then j + n else j)
      in if 0 \<le> k \<and> k < n then Inr (xs ! nat k) else Inl IndexError)"

text \<open>
  The number of elements of \<^verbatim>\<open>a[start:stop]\<close> on an axis of length \<open>n\<close>: a negative bound
  counts from the end, and both bounds are clipped to the axis.
\<close>

definition py_slice_bound :: "int \<Rightarrow> int \<Rightarrow> int" where
  "py_slice_bound n x = (if x < 0 then max (x + n) 0 else min x n)"

definition py_slice_len :: "int \<Rightarrow> int \<Rightarrow> int \<Rightarrow> int" where
  "py_slice_len n start stop = max 0 (py_slice_bound n stop - py_slice_bound n start)"

text \<open>\<^verbatim>\<open>np.max\<close> of a non-empty array.\<close>

fun np_max :: "rat list \<Rightarrow> rat" where
  "np_max [] = 0"
| "np_max (x # xs) = fold max xs x"

text \<open>\<^verbatim>\<open>.argmin()\<close>: the index of the first occurrence of the minimum.\<close>

fun argmin :: "int list \<Rightarrow> nat" where
  "argmin [] = 0"
| "argmin [x] = 0"
| "argmin (x # y # ys) = (let i = argmin (y # ys) in if x \<le> (y # ys) ! i then 0 else Suc i)"

subsection \<open>The classifier\<close>

text \<open>\<^verbatim>\<open>width == int(height * ratio[0] / ratio[1])\<close>\<close>

definition is_good_ratio :: "int \<Rightarrow> int \<Rightarrow> ratio \<Rightarrow> error + bool" where
  "is_good_ratio width height ratio =
     (case true_div (height * fst ratio) (snd ratio) of
        Inl e \<Rightarrow> Inl e
      | Inr q \<Rightarrow> Inr (width = py_int q))"

text \<open>\<^verbatim>\<open>abs(width / height - ratio[0] / ratio[1]) <= margin\<close>\<close>

definition is_resizable :: "int \<Rightarrow> int \<Rightarrow> rat \<Rightarrow> ratio \<Rightarrow> error + bool" where
  "is_resizable width height margin ratio =
     (case true_div width height of
        Inl e \<Rightarrow> Inl e
      | Inr a \<Rightarrow>
          (case true_div (fst ratio) (snd ratio) of
             Inl e \<Rightarrow> Inl e
           | Inr b \<Rightarrow> Inr (\<bar>a - b\<bar> \<le> margin)))"

text \<open>The \<^verbatim>\<open>if\<close>/\<^verbatim>\<open>elif\<close>/\<^verbatim>\<open>else\<close> chain of the loop of \<^verbatim>\<open>main\<close>.\<close>

definition classify :: "int \<Rightarrow> int \<Rightarrow> ratio \<Rightarrow> rat \<Rightarrow> error + outcome" where
  "classify width height ratio margin =
     (case is_good_ratio width height ratio of
        Inl e \<Rightarrow> Inl e
      | Inr True \<Rightarrow> Inr Conforming
      | Inr False \<Rightarrow>
          (case is_resizable width height margin ratio of
             Inl e \<Rightarrow> Inl e
           | Inr True \<Rightarrow> Inr Resizable
           | Inr False \<Rightarrow> Inr CropRequired))"

subsection \<open>The shape enumerator\<close>

text \<open>
  \<^verbatim>\<open>shapes / ratio\<close> divides each row \<open>(height, width)\<close> elementwise by \<open>(rw, rh)\<close>: the
  height by \<open>rw\<close> and the width by \<open>rh\<close>.
\<close>

definition quotients :: "shape list \<Rightarrow> ratio \<Rightarrow> rat list" where
  "quotients shapes ratio =
     concat (map (\<lambda>s. [of_int (fst s) / of_int (fst ratio),
                        of_int (snd s) / of_int (snd ratio)]) shapes)"

text \<open>
  An empty list of shapes does not broadcast against the ratio (\<^verbatim>\<open>ValueError\<close>). With a zero
  ratio component numpy divides to \<^verbatim>\<open>inf\<close> or \<^verbatim>\<open>nan\<close>, whose cast to an integer is not
  defined; the model stops there with \<open>InvalidCast\<close>.
\<close>

definition compute_all_valid_shapes :: "shape list \<Rightarrow> ratio \<Rightarrow> error + shape list" where
  "compute_all_valid_shapes shapes ratio =
     (if shapes = [] then Inl ValueError
      else if fst ratio = 0 \<or> snd ratio = 0 then Inl InvalidCast
      else
        let max_ratio = py_int (np_max (quotients shapes ratio));
            ratio_range = [1..max_ratio]
        in Inr (map (\<lambda>k. (k * snd ratio, k * fst ratio)) ratio_range))"

subsection \<open>The shape selectors\<close>

definition sq_dist :: "shape \<Rightarrow> shape \<Rightarrow> int" where
  "sq_dist bad_shape valid_shape =
     (fst valid_shape - fst bad_shape)\<^sup>2 + (snd valid_shape - snd bad_shape)\<^sup>2"

definition get_closest_shape :: "int \<Rightarrow> int \<Rightarrow> shape list \<Rightarrow> ratio \<Rightarrow> error + shape" where
  "get_closest_shape width height valid_shapes ratio =
     (case is_good_ratio width height ratio of
        Inl e \<Rightarrow> Inl e
      | Inr True \<Rightarrow> Inr (height, width)
      | Inr False \<Rightarrow>
          (if valid_shapes = [] then Inl ValueError
           else Inr (valid_shapes ! argmin (map (sq_dist (height, width)) valid_shapes))))"

text \<open>\<^verbatim>\<open>np.any(shape < valid_shape)\<close>\<close>

definition any_less :: "shape \<Rightarrow> shape \<Rightarrow> bool" where
  "any_less shape valid_shape = (fst shape < fst valid_shape \<or> snd shape < snd valid_shape)"

text \<open>
  The \<^verbatim>\<open>for\<close> loop with its \<^verbatim>\<open>break\<close>. The state is the loop variable \<open>i\<close>, unbound
  (\<open>None\<close>) until the first iteration.
\<close>

fun scan_shapes :: "shape \<Rightarrow> (nat \<times> shape) list \<Rightarrow> nat option \<Rightarrow> nat option" where
  "scan_shapes shape [] i = i"
| "scan_shapes shape ((j, valid_shape) # rest) i =
     (if any_less shape valid_shape then Some j else scan_shapes shape rest (Some j))"

definition get_biggest_shape_contained_in_image :: "shape \<Rightarrow> shape list \<Rightarrow> error + shape" where
  "get_biggest_shape_contained_in_image shape valid_shapes =
     (case scan_shapes shape (enumerate 0 valid_shapes) None of
        None \<Rightarrow> Inl UnboundLocalError
      | Some i \<Rightarrow> py_index valid_shapes (int i - 1))"

subsection \<open>The transforms\<close>

text \<open>\<^verbatim>\<open>cv2.resize(image, closest_shape[::-1])\<close> yields an array of shape \<open>closest_shape\<close>.\<close>

definition resize_image :: "string \<Rightarrow> shape \<Rightarrow> shape list \<Rightarrow> ratio \<Rightarrow> error + file_write" where
  "resize_image filename img valid_shapes ratio =
     (case get_closest_shape (snd img) (fst img) valid_shapes ratio of
        Inl e \<Rightarrow> Inl e
      | Inr closest_shape \<Rightarrow> Inr (filename, closest_shape))"

text \<open>
  The margins of \<^verbatim>\<open>crop_image\<close>: \<^verbatim>\<open>margin // 2\<close> and the rest, per axis.
\<close>

definition crop_margins :: "shape \<Rightarrow> shape \<Rightarrow> shape \<times> shape" where
  "crop_margins old_shape new_shape =
     (let margin = (fst old_shape - fst new_shape, snd old_shape - snd new_shape);
          up_left_margin = (fst margin div 2, snd margin div 2);
          down_right_margin = (fst margin - fst up_left_margin, snd margin - snd up_left_margin)
      in (up_left_margin, down_right_margin))"

text \<open>
  The slicing of \<^verbatim>\<open>crop_image\<close>, with the names of the source: \<open>left_margin\<close> and \<open>width\<close>
  are the entries of the first axis (the rows), \<open>up_margin\<close> and \<open>height\<close> those of the
  second. The result is the shape of the slice.
\<close>

definition crop_to :: "shape \<Rightarrow> shape \<Rightarrow> shape" where
  "crop_to old_shape new_shape =
     (let (up_left_margin, down_right_margin) = crop_margins old_shape new_shape;
          (left_margin, up_margin) = up_left_margin;
          (right_margin, down_margin) = down_right_margin;
          (width, height) = old_shape
      in (py_slice_len width left_margin (width - right_margin),
          py_slice_len height up_margin (height - down_margin)))"

definition crop_image :: "string \<Rightarrow> shape \<Rightarrow> shape list \<Rightarrow> error + file_write" where
  "crop_image filename img valid_shapes =
     (case get_biggest_shape_contained_in_image img valid_shapes of
        Inl e \<Rightarrow> Inl e
      | Inr new_shape \<Rightarrow> Inr (filename, crop_to img new_shape))"

subsection \<open>The orchestrator\<close>

text \<open>
  One iteration of the loop of \<^verbatim>\<open>main\<close>: the writes it performs (none or one), or the
  exception that ends the run. The \<^verbatim>\<open>verbose\<close> flag only prints.
\<close>

definition process_image :: "string \<times> shape \<Rightarrow> shape list \<Rightarrow> ratio \<Rightarrow> rat \<Rightarrow> error + file_write list" where
  "process_image entry valid_shapes ratio margin =
     (let filename = fst entry; wallpaper = snd entry;
          height = fst wallpaper; width = snd wallpaper
      in case classify width height ratio margin of
           Inl e \<Rightarrow> Inl e
         | Inr Conforming \<Rightarrow> Inr []
         | Inr Resizable \<Rightarrow>
             (case resize_image filename wallpaper valid_shapes ratio of
                Inl e \<Rightarrow> Inl e | Inr w \<Rightarrow> Inr [w])
         | Inr CropRequired \<Rightarrow>
             (case crop_image filename wallpaper valid_shapes of
                Inl e \<Rightarrow> Inl e | Inr w \<Rightarrow> Inr [w]))"

text \<open>
  The loop: the writes performed so far and the exception that stopped it, if any.
\<close>

fun main_loop :: "(string \<times> shape) list \<Rightarrow> shape list \<Rightarrow> ratio \<Rightarrow> rat \<Rightarrow> file_write list \<times> error option" where
  "main_loop [] valid_shapes ratio margin = ([], None)"
| "main_loop (entry # rest) valid_shapes ratio margin =
     (case process_image entry valid_shapes ratio margin of
        Inl e \<Rightarrow> ([], Some e)
      | Inr ws \<Rightarrow>
          (let r = main_loop rest valid_shapes ratio margin in (ws @ fst r, snd r)))"

text \<open>
  \<^verbatim>\<open>main\<close> on a directory given as the sorted list of its file names with the shapes of the
  loaded images.
\<close>

definition main :: "(string \<times> shape) list \<Rightarrow> ratio \<Rightarrow> rat \<Rightarrow> file_write list \<times> error option" where
  "main directory ratio margin =
     (case compute_all_valid_shapes (map snd directory) ratio of
        Inl e \<Rightarrow> ([], Some e)
      | Inr valid_shapes \<Rightarrow> main_loop directory valid_shapes ratio margin)"

text \<open>The directory after the writes: each write replaces the file of that name.\<close>

fun apply_writes :: "(string \<times> shape) list \<Rightarrow> file_write list \<Rightarrow> (string \<times> shape) list" where
  "apply_writes directory [] = directory"
| "apply_writes directory ((filename, s) # ws) =
     apply_writes (map (\<lambda>entry. if fst entry = filename then (filename, s) else entry) directory) ws"

subsection \<open>Notions of the specification\<close>

text \<open>A valid shape fits in an image: neither dimension exceeds the image's.\<close>

definition fits_in :: "shape \<Rightarrow> shape \<Rightarrow> bool" where
  "fits_in valid_shape shape =
     (fst valid_shape \<le> fst shape \<and> snd valid_shape \<le> snd shape)"

text \<open>
  The enumerator as the specification words it, for comparison with
  \<open>compute_all_valid_shapes\<close>: the maximum over all shapes of each dimension divided by
  its own ratio component (the height by \<open>rh\<close>, the width by \<open>rw\<close>), floored, and the
  shapes \<open>(k * rh, k * rw)\<close> for \<open>k\<close> from 1 to that bound.
\<close>

definition spec_max_ratio :: "shape list \<Rightarrow> ratio \<Rightarrow> int" where
  "spec_max_ratio shapes ratio =
     \<lfloor>np_max (concat (map (\<lambda>s. [of_int (fst s) / of_int (snd ratio),
                                   of_int (snd s) / of_int (fst ratio)]) shapes))\<rfloor>"

definition spec_valid_shapes :: "shape list \<Rightarrow> ratio \<Rightarrow> shape list" where
  "spec_valid_shapes shapes ratio =
     map (\<lambda>k. (k * snd ratio, k * fst ratio)) [1..spec_max_ratio shapes ratio]"

section \<open>Auxiliary lemmas\<close>











lemma sq_dist_zero_iff: "sq_dist p q = 0 \<longleftrightarrow> q = p"
  by (cases p; cases q) (auto simp: sq_dist_def sum_power2_eq_zero_iff)

lemma sq_dist_nonneg: "0 \<le> sq_dist p q"
  by (simp add: sq_dist_def)

lemma any_less_iff_not_contained: "any_less s v \<longleftrightarrow> \<not> fits_in v s"
  by (auto simp: any_less_def fits_in_def)


lemma scan_shapes_no_break:
  assumes "\<forall>v\<in>set vs. \<not> any_less s v"
  shows "scan_shapes s (enumerate n vs) st =
           (if vs = [] then st else Some (n + length vs - 1))"
  using assms
  by (induction vs arbitrary: n st) auto


lemma py_index_nat: "i < length xs \<Longrightarrow> py_index xs (int i) = Inr (xs ! i)"
  by (simp add: py_index_def)

lemma py_index_minus_one: "xs \<noteq> [] \<Longrightarrow> py_index xs (- 1) = Inr (last xs)"
proof -
  assume ne: "xs \<noteq> []"
  then have len: "0 < length xs" by simp
  then have "nat (- 1 + int (length xs)) = length xs - 1" by arith
  with len ne show ?thesis
    by (simp add: py_index_def last_conv_nth)
qed


lemma get_biggest_no_break:
  assumes "vs \<noteq> []" and "\<forall>v\<in>set vs. \<not> any_less s v"
  shows "get_biggest_shape_contained_in_image s vs =
           (if length vs = 1 then Inr (last vs) else Inr (vs ! (length vs - 2)))"
proof -
  have scan: "scan_shapes s (enumerate 0 vs) None = Some (length vs - 1)"
    using scan_shapes_no_break [OF assms(2), of 0 None] assms(1) by simp
  have res: "get_biggest_shape_contained_in_image s vs = py_index vs (int (length vs - 1) - 1)"
    by (simp add: get_biggest_shape_contained_in_image_def scan del: of_nat_diff)
  have len: "0 < length vs" using assms(1) by simp
  show ?thesis
  proof (cases "length vs = 1")
    case True
    then have "int (length vs - 1) - 1 = - 1" by arith
    with res have "get_biggest_shape_contained_in_image s vs = py_index vs (- 1)"
      by (simp only:)
    with py_index_minus_one [OF assms(1)] True show ?thesis
      by simp
  next
    case False
    with len have two: "2 \<le> length vs" by arith
    then have e: "int (length vs - 1) - 1 = int (length vs - 2)" by arith
    have "length vs - 2 < length vs" using two by arith
    then have "py_index vs (int (length vs - 2)) = Inr (vs ! (length vs - 2))"
      by (rule py_index_nat)
    with res e False show ?thesis
      by (simp only: if_False)
  qed
qed


section \<open>The claims\<close>

subsection \<open>C2: the largest contained shape\<close>




subsection \<open>C3: classification\<close>



subsection \<open>C4: the nearest shape\<close>



subsection \<open>C10: every valid shape fits\<close>

text \<open>
Claim C10. When every shape of a non-empty valid-shape sequence fits in the image, the
  loop ends without a \<open>break\<close> at the last index, and the function returns the
  second-to-last shape, which differs from the last one when the shapes are distinct; with
  exactly one shape the index \<open>-1\<close> selects that shape.
\<close>

theorem all_contained_returns_second_to_last:
  assumes "valid_shapes \<noteq> []" and "\<forall>v\<in>set valid_shapes. fits_in v shape"
  shows "(2 \<le> length valid_shapes \<longrightarrow>
            get_biggest_shape_contained_in_image shape valid_shapes
              = Inr (valid_shapes ! (length valid_shapes - 2)) \<and>
            (distinct valid_shapes \<longrightarrow>
               get_biggest_shape_contained_in_image shape valid_shapes \<noteq> Inr (last valid_shapes))) \<and>
         (length valid_shapes = 1 \<longrightarrow>
            get_biggest_shape_contained_in_image shape valid_shapes = Inr (last valid_shapes))"
proof -
  have nb: "\<forall>v\<in>set valid_shapes. \<not> any_less shape v"
    using assms(2) by (simp add: any_less_iff_not_contained)
  note res = get_biggest_no_break [OF assms(1) nb]
  have "valid_shapes ! (length valid_shapes - 2) \<noteq> last valid_shapes"
    if two: "2 \<le> length valid_shapes" and d: "distinct valid_shapes"
  proof -
    have "length valid_shapes - 2 \<noteq> length valid_shapes - 1"
      using two by simp
    moreover have "length valid_shapes - 2 < length valid_shapes"
      "length valid_shapes - 1 < length valid_shapes"
      using two by simp_all
    ultimately have "valid_shapes ! (length valid_shapes - 2) \<noteq> valid_shapes ! (length valid_shapes - 1)"
      using d by (simp add: nth_eq_iff_index_eq)
    then show ?thesis
      using assms(1) by (simp add: last_conv_nth)
  qed
  with res show ?thesis by auto
qed

text \<open>
A witness for claim C10: an image in which all three shapes fit, and a single shape.
\<close>

theorem all_contained_returns_second_to_last_witness:
  "fits_in (9, 16) (100, 100) \<and> fits_in (18, 32) (100, 100) \<and> fits_in (27, 48) (100, 100) \<and>
   get_biggest_shape_contained_in_image (100, 100) [(9, 16), (18, 32), (27, 48)] = Inr (18, 32) \<and>
   get_biggest_shape_contained_in_image (100, 100) [(9, 16), (18, 32), (27, 48)] \<noteq> Inr (27, 48) \<and>
   get_biggest_shape_contained_in_image (100, 100) [(9, 16)] = Inr (9, 16)"
proof -
  let ?vs = "[(9, 16), (18, 32), (27, 48)] :: shape list"
  have f1: "fits_in (9, 16) (100, 100)" and f2: "fits_in (18, 32) (100, 100)"
    and f3: "fits_in (27, 48) (100, 100)"
    by (simp_all add: fits_in_def)
  have ne: "?vs \<noteq> []" by simp
  have all: "\<forall>v\<in>set ?vs. fits_in v (100, 100)"
    using f1 f2 f3 by simp
  have two: "2 \<le> length ?vs" by simp
  have d: "distinct ?vs" by simp
  have "2 \<le> length ?vs \<longrightarrow>
          get_biggest_shape_contained_in_image (100, 100) ?vs = Inr (?vs ! (length ?vs - 2)) \<and>
          (distinct ?vs \<longrightarrow>
             get_biggest_shape_contained_in_image (100, 100) ?vs \<noteq> Inr (last ?vs))"
    using all_contained_returns_second_to_last [OF ne all] by (rule conjunct1)
  with two have both:
    "get_biggest_shape_contained_in_image (100, 100) ?vs = Inr (?vs ! (length ?vs - 2)) \<and>
     (distinct ?vs \<longrightarrow> get_biggest_shape_contained_in_image (100, 100) ?vs \<noteq> Inr (last ?vs))"
    by (rule rev_mp)
  have i: "?vs ! (length ?vs - 2) = (18, 32)" by simp
  have l: "last ?vs = (27, 48)" by simp
  from both have "get_biggest_shape_contained_in_image (100, 100) ?vs = Inr (?vs ! (length ?vs - 2))"
    by (rule conjunct1)
  then have r1: "get_biggest_shape_contained_in_image (100, 100) ?vs = Inr (18, 32)"
    by (simp only: i)
  from both have "distinct ?vs \<longrightarrow> get_biggest_shape_contained_in_image (100, 100) ?vs \<noteq> Inr (last ?vs)"
    by (rule conjunct2)
  with d have "get_biggest_shape_contained_in_image (100, 100) ?vs \<noteq> Inr (last ?vs)"
    by (rule rev_mp)
  then have r2: "get_biggest_shape_contained_in_image (100, 100) ?vs \<noteq> Inr (27, 48)"
    unfolding l .
  have r3: "get_biggest_shape_contained_in_image (100, 100) [(9, 16)] = Inr (9, 16)"
    by code_simp
  from f1 f2 f3 r1 r2 r3 show ?thesis
    by blast
qed

end
